theory Spec2Isabelle
  imports Complex_Main "HOL-Library.Word" "HOL-Library.Log_Nat"
begin

section \<open>Rate-limit retry core of the Discord provider (discord/client.go)\<close>

text \<open>
  The development embeds the three functions of \<^verbatim>\<open>discord/client.go\<close> that make up the
  retry core: \<^verbatim>\<open>calculateBackoff\<close>, \<^verbatim>\<open>parseRetryAfter\<close> and \<^verbatim>\<open>executeWithRetry\<close> (with its
  adapter \<^verbatim>\<open>executeWithRetryNoResult\<close>).

  \<^item> \<^verbatim>\<open>time.Duration\<close> is an \<^verbatim>\<open>int64\<close> count of nanoseconds: a 64-bit word, read with
    \<open>sint\<close>, compared with the signed orders, with wrapping arithmetic.
  \<^item> Go's \<^verbatim>\<open>int\<close> is taken at its 64-bit width.
  \<^item> \<^verbatim>\<open>float64\<close> is IEEE 754 binary64 with round-to-nearest-even.
  \<^item> Strings and byte slices are lists of bytes (\<open>string\<close>).
  \<^item> The functions of Go's standard library that the code calls on untrusted text
    (\<^verbatim>\<open>strconv.ParseFloat\<close>, \<^verbatim>\<open>json.Unmarshal\<close>) are parameters of the model.
  \<^item> The wrapped operation, the cancellation context and the timer act on a world state
    that is passed explicitly.
\<close>

subsection \<open>Durations and the constants of the file\<close>

type_synonym Duration = "64 word"

type_synonym go_int = "64 word"

definition Nanosecond :: Duration where
  "Nanosecond = 1"

definition Microsecond :: Duration where
  "Microsecond = 1000 * Nanosecond"

definition Millisecond :: Duration where
  "Millisecond = 1000 * Microsecond"

definition Second :: Duration where
  "Second = 1000 * Millisecond"

definition maxRetries :: nat where
  "maxRetries = 5"

definition baseBackoff :: Duration where
  "baseBackoff = 1 * Second"

definition maxBackoff :: Duration where
  "maxBackoff = 120 * Second"

subsection \<open>calculateBackoff\<close>

text \<open>
  \<^verbatim>\<open>
  func calculateBackoff(attempt int, retryAfter time.Duration) time.Duration {
      if retryAfter > 0 && retryAfter < maxBackoff {
          return retryAfter + 500*time.Millisecond
      }
      backoff := baseBackoff * time.Duration(1<<uint(attempt))
      if backoff > maxBackoff {
          backoff = maxBackoff
      }
      return backoff
  }
  \<close>
  The constant \<^verbatim>\<open>1\<close> of the shift takes the type \<^verbatim>\<open>time.Duration\<close>, so the shift is a 64-bit
  shift: a count of 64 or more gives 0, and \<open>push_bit\<close> on a 64-bit word does the same.
  \<^verbatim>\<open>uint(attempt)\<close> reinterprets the bits of \<^verbatim>\<open>attempt\<close> (\<open>unat\<close>). The product wraps.
\<close>

definition calculateBackoff :: "go_int \<Rightarrow> Duration \<Rightarrow> Duration" where
  "calculateBackoff attempt retryAfter =
     (if 0 <s retryAfter \<and> retryAfter <s maxBackoff then retryAfter + 500 * Millisecond
      else let backoff = baseBackoff * push_bit (unat attempt) 1
           in if maxBackoff <s backoff then maxBackoff else backoff)"

subsection \<open>float64\<close>

text \<open>
  A \<^verbatim>\<open>float64\<close> is a finite binary64 value (kept as the rational it denotes), an infinity
  or a NaN. The two zeros are one value here: \<^verbatim>\<open>-0 > 0\<close> is false, \<^verbatim>\<open>-0 * x\<close> is a zero and
  the conversion of either zero to an integer is 0, so no function of this file tells
  them apart.
\<close>

datatype float64 = Finite rat | PosInf | NegInf | NaN

definition pow2 :: "int \<Rightarrow> rat" where
  "pow2 k = (if 0 \<le> k then 2 ^ nat k else 1 / 2 ^ nat (- k))"

text \<open>The exponent \<open>e\<close> with \<open>2 ^ e \<le> q < 2 ^ (e + 1)\<close>, for a positive \<open>q\<close>.\<close>

definition ilog2 :: "rat \<Rightarrow> int" where
  "ilog2 q = (case quotient_of q of (n, d) \<Rightarrow>
     (let k = bitlen n - bitlen d in if pow2 k \<le> q then k else k - 1))"

definition round_half_even :: "rat \<Rightarrow> int" where
  "round_half_even q =
     (let f = \<lfloor>q\<rfloor>; r = q - of_int f
      in if r < 1 / 2 then f else if 1 / 2 < r then f + 1 else if even f then f else f + 1)"

text \<open>
  Rounding of an exact result to binary64: 53 significant bits, the least exponent
  \<open>-1022\<close> (below it the spacing stays \<open>2 ^ -1074\<close>), ties to even, and an infinity when
  the rounded magnitude reaches \<open>2 ^ 1024\<close>.
\<close>

definition round64 :: "rat \<Rightarrow> float64" where
  "round64 q =
     (if q = 0 then Finite 0
      else let a = \<bar>q\<bar>;
               qe = max (ilog2 a) (- 1022) - 52;
               v = of_int (round_half_even (a / pow2 qe)) * pow2 qe
           in if pow2 1024 \<le> v then (if 0 < q then PosInf else NegInf)
              else Finite (if 0 < q then v else - v))"

fun float64_mul :: "float64 \<Rightarrow> float64 \<Rightarrow> float64" where
  "float64_mul NaN _ = NaN"
| "float64_mul _ NaN = NaN"
| "float64_mul (Finite a) (Finite b) = round64 (a * b)"
| "float64_mul (Finite a) PosInf = (if a = 0 then NaN else if 0 < a then PosInf else NegInf)"
| "float64_mul (Finite a) NegInf = (if a = 0 then NaN else if 0 < a then NegInf else PosInf)"
| "float64_mul PosInf (Finite b) = (if b = 0 then NaN else if 0 < b then PosInf else NegInf)"
| "float64_mul NegInf (Finite b) = (if b = 0 then NaN else if 0 < b then NegInf else PosInf)"
| "float64_mul PosInf PosInf = PosInf"
| "float64_mul PosInf NegInf = NegInf"
| "float64_mul NegInf PosInf = NegInf"
| "float64_mul NegInf NegInf = PosInf"

text \<open>The comparison \<^verbatim>\<open>x > 0\<close>; every comparison with a NaN is false.\<close>

fun float64_positive :: "float64 \<Rightarrow> bool" where
  "float64_positive (Finite q) = (0 < q)"
| "float64_positive PosInf = True"
| "float64_positive NegInf = False"
| "float64_positive NaN = False"

text \<open>The conversion \<^verbatim>\<open>float64(d)\<close> of an \<^verbatim>\<open>int64\<close>: the nearest binary64.\<close>

definition float64_of_int64 :: "64 word \<Rightarrow> float64" where
  "float64_of_int64 d = round64 (of_int (sint d))"

definition truncate_rat :: "rat \<Rightarrow> int" where
  "truncate_rat q = (if 0 \<le> q then \<lfloor>q\<rfloor> else \<lceil>q\<rceil>)"

text \<open>
  The conversion \<^verbatim>\<open>time.Duration(f)\<close> of a \<^verbatim>\<open>float64\<close>: the fraction is discarded. Where the
  truncated value is not an \<^verbatim>\<open>int64\<close> (or \<open>f\<close> is an infinity or a NaN) the language leaves
  the result to the implementation; \<open>impl\<close> is that choice.
\<close>

definition int64_of_float64 :: "(float64 \<Rightarrow> 64 word) \<Rightarrow> float64 \<Rightarrow> 64 word" where
  "int64_of_float64 impl f =
     (case f of
        Finite q \<Rightarrow>
          (let t = truncate_rat q
           in if - (2 ^ 63) \<le> t \<and> t < 2 ^ 63 then word_of_int t else impl f)
      | _ \<Rightarrow> impl f)"

subsection \<open>The error shape consumed: discordgo.RESTError and its http.Response\<close>

text \<open>
  \<^verbatim>\<open>
  type RateLimitError struct {
      Message    string  `json:"message"`
      RetryAfter float64 `json:"retry_after"`
      Global     bool    `json:"global"`
  }
  \<close>
\<close>

record RateLimitError =
  Message :: string
  RetryAfter :: float64
  Global :: bool

text \<open>
  The response body is a stream: what is still unread, and whether reading it fails.
  \<^verbatim>\<open>io.ReadAll\<close> returns everything unread and leaves the stream at its end, or returns
  the read error.
\<close>

record ReadCloser =
  unread :: string
  broken :: bool

definition ReadAll :: "ReadCloser \<Rightarrow> string option \<times> ReadCloser" where
  "ReadAll rc = (if broken rc then (None, rc) else (Some (unread rc), rc\<lparr>unread := []\<rparr>))"

record http_Response =
  StatusCode :: int
  Header :: "string \<rightharpoonup> string list"
  Body :: "ReadCloser option"

text \<open>
  \<^verbatim>\<open>Header.Get(key)\<close>: the first value stored under the canonical form of the key, or the
  empty string. The only key asked for is \<^verbatim>\<open>Retry-After\<close>, which is its own canonical form.
\<close>

definition Header_Get :: "(string \<rightharpoonup> string list) \<Rightarrow> string \<Rightarrow> string" where
  "Header_Get h k = (case h k of None \<Rightarrow> [] | Some [] \<Rightarrow> [] | Some (v # _) \<Rightarrow> v)"

text \<open>
  Of \<^verbatim>\<open>discordgo.RESTError\<close> the two fields the code reads. \<^verbatim>\<open>None\<close> is the nil pointer,
  respectively the nil slice.
\<close>

record RESTError =
  Response :: "http_Response option"
  ResponseBody :: "string option"

subsection \<open>The library and the implementation as parameters\<close>

text \<open>
  \<^item> \<open>ParseFloat s\<close> is \<^verbatim>\<open>strconv.ParseFloat(s, 64)\<close>: the value, or \<open>None\<close> when it returns
    an error.
  \<^item> \<open>Unmarshal b\<close> is \<^verbatim>\<open>json.Unmarshal(b, &rateLimitErr)\<close> on a zero \<^verbatim>\<open>RateLimitError\<close>: the
    decoded struct, or \<open>None\<close> when it returns an error.
  \<^item> \<open>unrepresentable\<close> is the implementation's result for a \<^verbatim>\<open>float64\<close> to \<^verbatim>\<open>int64\<close>
    conversion whose value does not fit.
\<close>

record runtime =
  ParseFloat :: "string \<Rightarrow> float64 option"
  Unmarshal :: "string \<Rightarrow> RateLimitError option"
  unrepresentable :: "float64 \<Rightarrow> 64 word"

text \<open>The expression \<^verbatim>\<open>time.Duration(seconds * float64(time.Second))\<close>.\<close>

definition seconds_Duration :: "runtime \<Rightarrow> float64 \<Rightarrow> Duration" where
  "seconds_Duration rt seconds =
     int64_of_float64 (unrepresentable rt) (float64_mul seconds (float64_of_int64 Second))"

subsection \<open>parseRetryAfter\<close>

text \<open>
  \<^verbatim>\<open>
  func parseRetryAfter(restErr *discordgo.RESTError) time.Duration {
      if restErr.Response == nil {
          return 5 * time.Second
      }
      if retryAfterStr := restErr.Response.Header.Get("Retry-After"); retryAfterStr != "" {
          if seconds, err := strconv.ParseFloat(retryAfterStr, 64); err == nil {
              return time.Duration(seconds * float64(time.Second))
          }
      }
      if restErr.ResponseBody != nil {
          var rateLimitErr RateLimitError
          if json.Unmarshal(restErr.ResponseBody, &rateLimitErr) == nil && rateLimitErr.RetryAfter > 0 {
              return time.Duration(rateLimitErr.RetryAfter * float64(time.Second))
          }
      }
      if restErr.Response.Body != nil {
          body, err := io.ReadAll(restErr.Response.Body)
          if err == nil {
              var rateLimitErr RateLimitError
              if json.Unmarshal(body, &rateLimitErr) == nil && rateLimitErr.RetryAfter > 0 {
                  return time.Duration(rateLimitErr.RetryAfter * float64(time.Second))
              }
          }
      }
      return 5 * time.Second
  }
  \<close>
  The argument is a pointer, taken to be non-nil (the executor passes the target of a
  successful type assertion). The one thing the function changes is the body stream it
  reads, so the model returns the duration together with the error object as the call
  leaves it. Each \<open>the\<close> stands under the test that its argument is not \<open>None\<close>, as each
  value of the code is used under the test \<^verbatim>\<open>err == nil\<close> or \<^verbatim>\<open>!= nil\<close>.
\<close>

definition parseRetryAfter :: "runtime \<Rightarrow> RESTError \<Rightarrow> Duration \<times> RESTError" where
  "parseRetryAfter rt restErr =
     (if Response restErr = None then (5 * Second, restErr)
      else
        let resp = the (Response restErr);
            retryAfterStr = Header_Get (Header resp) ''Retry-After''
        in
          if retryAfterStr \<noteq> [] \<and> ParseFloat rt retryAfterStr \<noteq> None
          then (seconds_Duration rt (the (ParseFloat rt retryAfterStr)), restErr)
          else if ResponseBody restErr \<noteq> None \<and>
                  Unmarshal rt (the (ResponseBody restErr)) \<noteq> None \<and>
                  float64_positive (RetryAfter (the (Unmarshal rt (the (ResponseBody restErr)))))
          then (seconds_Duration rt (RetryAfter (the (Unmarshal rt (the (ResponseBody restErr))))),
                restErr)
          else if Body resp \<noteq> None
          then
            (case ReadAll (the (Body resp)) of
               (body, stream') \<Rightarrow>
                 let restErr' = restErr\<lparr>Response := Some (resp\<lparr>Body := Some stream'\<rparr>)\<rparr>
                 in
                   if body \<noteq> None \<and> Unmarshal rt (the body) \<noteq> None \<and>
                      float64_positive (RetryAfter (the (Unmarshal rt (the body))))
                   then (seconds_Duration rt (RetryAfter (the (Unmarshal rt (the body)))), restErr')
                   else (5 * Second, restErr'))
          else (5 * Second, restErr))"

subsection \<open>Errors, the cancellation context and the wrapped operation\<close>

text \<open>
  The values of Go's \<^verbatim>\<open>error\<close> interface that occur: a \<^verbatim>\<open>*discordgo.RESTError\<close>, the two
  errors of a context, any other error (by its text), and the error that
  \<^verbatim>\<open>fmt.Errorf\<close> builds with \<^verbatim>\<open>%w\<close>, which holds the text of the format and the error it
  wraps (\<open>None\<close> is a nil error).
\<close>

datatype error =
    RESTError_ptr RESTError
  | Canceled
  | DeadlineExceeded
  | errorString string
  | wrapError string "error option"

text \<open>
  A context over a world state \<open>'s\<close>: \<open>Err ctx s\<close> is \<^verbatim>\<open>ctx.Err()\<close> in the world \<open>s\<close>;
  \<open>Done_first ctx d s\<close> is the \<^verbatim>\<open>select\<close> between \<^verbatim>\<open>ctx.Done()\<close> and \<^verbatim>\<open>time.After(d)\<close>
  entered in the world \<open>s\<close>: whether the context's channel was received from, and the
  world when the \<^verbatim>\<open>select\<close> returns.
\<close>

record 's Context =
  Err :: "'s \<Rightarrow> error option"
  Done_first :: "Duration \<Rightarrow> 's \<Rightarrow> bool \<times> 's"

text \<open>What a run did, in order: it invoked the operation (which returned the error
  recorded), or it suspended for a wait that elapsed, or for a wait that the context cut
  short.\<close>

datatype event = Invoked "error option" | Waited Duration | Interrupted Duration

record ('t, 's) outcome =
  result :: 't
  err :: "error option"
  events :: "event list"
  world :: 's

datatype ('t, 's) step =
    Return "('t, 's) outcome"
  | Continue 't "error option" "event list" 's

fun invocations :: "event list \<Rightarrow> nat" where
  "invocations [] = 0"
| "invocations (Invoked _ # es) = Suc (invocations es)"
| "invocations (_ # es) = invocations es"

subsection \<open>executeWithRetry\<close>

text \<open>
  \<^verbatim>\<open>
  func executeWithRetry[T any](ctx context.Context, operation func() (T, error)) (T, error) {
      var result T
      var err error
      for attempt := 0; attempt < maxRetries; attempt++ {
          if ctx.Err() != nil {
              return result, ctx.Err()
          }
          result, err = operation()
          if err == nil {
              return result, nil
          }
          if restErr, ok := err.(*discordgo.RESTError); ok {
              if restErr.Response != nil && restErr.Response.StatusCode == 429 {
                  retryAfter := parseRetryAfter(restErr)
                  waitDuration := calculateBackoff(attempt, retryAfter)
                  select {
                  case <-ctx.Done():
                      return result, ctx.Err()
                  case <-time.After(waitDuration):
                      continue
                  }
              }
          }
          return result, err
      }
      return result, fmt.Errorf("max retries (%d) exceeded: %w", maxRetries, err)
  }
  \<close>
  \<open>iteration\<close> is the body of the loop: it returns, or continues with the variables
  \<^verbatim>\<open>result\<close> and \<^verbatim>\<open>err\<close> as it leaves them. \<^verbatim>\<open>err\<close> is the pointer that \<^verbatim>\<open>parseRetryAfter\<close> was
  given, so after the call it denotes the error object with its body stream as read.
\<close>

definition iteration ::
  "runtime \<Rightarrow> 's Context \<Rightarrow> ('s \<Rightarrow> ('t \<times> error option) \<times> 's) \<Rightarrow>
   nat \<Rightarrow> 't \<Rightarrow> event list \<Rightarrow> 's \<Rightarrow> ('t, 's) step" where
  "iteration rt ctx operation attempt result0 evs s =
     (if Err ctx s \<noteq> None
      then Return \<lparr>result = result0, err = Err ctx s, events = evs, world = s\<rparr>
      else
        (case operation s of
           ((result1, err1), s1) \<Rightarrow>
             (let evs1 = evs @ [Invoked err1];
                  giveUp = Return \<lparr>result = result1, err = err1, events = evs1, world = s1\<rparr>
              in case err1 of
                   None \<Rightarrow> Return \<lparr>result = result1, err = None, events = evs1, world = s1\<rparr>
                 | Some (RESTError_ptr restErr) \<Rightarrow>
                     (case Response restErr of
                        None \<Rightarrow> giveUp
                      | Some resp \<Rightarrow>
                          if StatusCode resp = 429 then
                            (case parseRetryAfter rt restErr of
                               (retryAfter, restErr') \<Rightarrow>
                                 (let waitDuration = calculateBackoff (of_nat attempt) retryAfter
                                  in case Done_first ctx waitDuration s1 of
                                       (True, s2) \<Rightarrow>
                                         Return \<lparr>result = result1, err = Err ctx s2,
                                           events = evs1 @ [Interrupted waitDuration], world = s2\<rparr>
                                     | (False, s2) \<Rightarrow>
                                         Continue result1 (Some (RESTError_ptr restErr'))
                                           (evs1 @ [Waited waitDuration]) s2))
                          else giveUp)
                 | Some _ \<Rightarrow> giveUp)))"

function retry_loop ::
  "runtime \<Rightarrow> 's Context \<Rightarrow> ('s \<Rightarrow> ('t \<times> error option) \<times> 's) \<Rightarrow>
   nat \<Rightarrow> 't \<Rightarrow> error option \<Rightarrow> event list \<Rightarrow> 's \<Rightarrow> ('t, 's) outcome" where
  "retry_loop rt ctx operation attempt result0 err0 evs s =
     (if attempt < maxRetries then
        (case iteration rt ctx operation attempt result0 evs s of
           Return out \<Rightarrow> out
         | Continue result1 err1 evs1 s1 \<Rightarrow>
             retry_loop rt ctx operation (Suc attempt) result1 err1 evs1 s1)
      else \<lparr>result = result0,
             err = Some (wrapError ''max retries (5) exceeded: '' err0),
             events = evs, world = s\<rparr>)"
  by pat_completeness auto
termination
  by (relation "measure (\<lambda>(rt, ctx, operation, attempt, result0, err0, evs, s). maxRetries - attempt)")
    auto

text \<open>\<open>zero\<close> is the zero value of the type \<^verbatim>\<open>T\<close> (\<^verbatim>\<open>var result T\<close>).\<close>

definition executeWithRetry ::
  "runtime \<Rightarrow> 's Context \<Rightarrow> 't \<Rightarrow> ('s \<Rightarrow> ('t \<times> error option) \<times> 's) \<Rightarrow> 's \<Rightarrow> ('t, 's) outcome" where
  "executeWithRetry rt ctx zero operation s = retry_loop rt ctx operation 0 zero None [] s"

subsection \<open>executeWithRetryNoResult\<close>

text \<open>
  \<^verbatim>\<open>
  func executeWithRetryNoResult(ctx context.Context, operation func() error) error {
      _, err := executeWithRetry(ctx, func() (struct{}, error) {
          return struct{}{}, operation()
      })
      return err
  }
  \<close>
  The model returns the error together with the events and the final world.
\<close>

definition placeholder :: "('s \<Rightarrow> error option \<times> 's) \<Rightarrow> 's \<Rightarrow> (unit \<times> error option) \<times> 's" where
  "placeholder operation w = (case operation w of (e, w') \<Rightarrow> (((), e), w'))"

definition executeWithRetryNoResult ::
  "runtime \<Rightarrow> 's Context \<Rightarrow> ('s \<Rightarrow> error option \<times> 's) \<Rightarrow> 's \<Rightarrow> error option \<times> event list \<times> 's" where
  "executeWithRetryNoResult rt ctx operation s =
     (let out = executeWithRetry rt ctx () (placeholder operation) s
      in (err out, events out, world out))"

section \<open>Notions of the specification\<close>

text \<open>
  A rate-limited failure, in the words of the specification: an error of the structured
  remote REST error shape whose response is attached and has the HTTP status code 429.
\<close>

definition rate_limited :: "error \<Rightarrow> bool" where
  "rate_limited e =
     (case e of
        RESTError_ptr r \<Rightarrow> (case Response r of Some resp \<Rightarrow> StatusCode resp = 429 | None \<Rightarrow> False)
      | _ \<Rightarrow> False)"

text \<open>An operation that fails with a rate-limited error on every invocation.\<close>

definition always_rate_limited :: "('s \<Rightarrow> ('t \<times> error option) \<times> 's) \<Rightarrow> bool" where
  "always_rate_limited operation =
     (\<forall>w. \<exists>e. snd (fst (operation w)) = Some e \<and> rate_limited e)"

text \<open>A context that is never signaled: neither at a check nor during a wait.\<close>

definition never_signaled :: "'s Context \<Rightarrow> bool" where
  "never_signaled ctx = ((\<forall>w. Err ctx w = None) \<and> (\<forall>d w. \<not> fst (Done_first ctx d w)))"

text \<open>
  A signal source that is absent or not parseable with the required shape: the
  \<^verbatim>\<open>Retry-After\<close> header is missing, empty or not a float; a payload is not the JSON of a
  rate-limit notification or its \<^verbatim>\<open>retry_after\<close> is not above zero.
\<close>

definition header_unusable :: "runtime \<Rightarrow> http_Response \<Rightarrow> bool" where
  "header_unusable rt resp =
     (Header_Get (Header resp) ''Retry-After'' = [] \<or>
      ParseFloat rt (Header_Get (Header resp) ''Retry-After'') = None)"

definition payload_unusable :: "runtime \<Rightarrow> string \<Rightarrow> bool" where
  "payload_unusable rt b =
     (case Unmarshal rt b of None \<Rightarrow> True | Some r \<Rightarrow> \<not> float64_positive (RetryAfter r))"

definition preread_unusable :: "runtime \<Rightarrow> RESTError \<Rightarrow> bool" where
  "preread_unusable rt e =
     (case ResponseBody e of None \<Rightarrow> True | Some b \<Rightarrow> payload_unusable rt b)"

definition stream_unusable :: "runtime \<Rightarrow> http_Response \<Rightarrow> bool" where
  "stream_unusable rt resp =
     (case Body resp of
        None \<Rightarrow> True
      | Some stream \<Rightarrow> (case fst (ReadAll stream) of None \<Rightarrow> True | Some b \<Rightarrow> payload_unusable rt b))"

text \<open>
  A call of \<^verbatim>\<open>parseRetryAfter\<close> that is decided before the live body stream is looked at:
  no response, a usable header, a usable pre-read payload, or no stream attached.
\<close>

definition decided_without_stream :: "runtime \<Rightarrow> RESTError \<Rightarrow> bool" where
  "decided_without_stream rt e =
     (case Response e of
        None \<Rightarrow> True
      | Some resp \<Rightarrow>
          \<not> header_unusable rt resp \<or> \<not> preread_unusable rt e \<or> Body resp = None)"

text \<open>
  A call of \<^verbatim>\<open>parseRetryAfter\<close> that is decided by a usable payload read from the live body
  stream: the header and the pre-read payload are unusable, and the stream is attached,
  readable and holds a usable payload.
\<close>

definition decided_by_stream :: "runtime \<Rightarrow> RESTError \<Rightarrow> bool" where
  "decided_by_stream rt e =
     (case Response e of
        None \<Rightarrow> False
      | Some resp \<Rightarrow>
          header_unusable rt resp \<and> preread_unusable rt e \<and> \<not> stream_unusable rt resp)"

subsection \<open>The retry policy for an operation that returns only an error\<close>

text \<open>
  The policy of section 4.1 of the specification, written as a loop of its own over an
  operation that returns only an error: (1) a signaled context ends the run with its
  error; (2) the operation is invoked and success ends the run; (3) a failure that is not
  rate-limited ends the run with that error; (4) a rate-limited failure gives the
  suggested wait, the wait computed from it, and a suspension that the context can cut
  short; (5) after \<open>maxRetries\<close> attempts the last error is wrapped.
  \<open>Inl\<close> ends the run, \<open>Inr\<close> goes on to the next attempt.
\<close>

definition policy_attempt ::
  "runtime \<Rightarrow> 's Context \<Rightarrow> ('s \<Rightarrow> error option \<times> 's) \<Rightarrow> nat \<Rightarrow> event list \<Rightarrow> 's \<Rightarrow>
   (error option \<times> event list \<times> 's) + (error option \<times> event list \<times> 's)" where
  "policy_attempt rt ctx operation attempt evs s =
     (case Err ctx s of
        Some c \<Rightarrow> Inl (Some c, evs, s)
      | None \<Rightarrow>
          (case operation s of
             (None, s1) \<Rightarrow> Inl (None, evs @ [Invoked None], s1)
           | (Some e, s1) \<Rightarrow>
               (if rate_limited e then
                  (case e of
                     RESTError_ptr r \<Rightarrow>
                       (let suggested = fst (parseRetryAfter rt r);
                            consumed = snd (parseRetryAfter rt r);
                            wait = calculateBackoff (of_nat attempt) suggested;
                            cut = fst (Done_first ctx wait s1);
                            s2 = snd (Done_first ctx wait s1)
                        in if cut
                           then Inl (Err ctx s2, evs @ [Invoked (Some e), Interrupted wait], s2)
                           else Inr (Some (RESTError_ptr consumed),
                                     evs @ [Invoked (Some e), Waited wait], s2))
                   | _ \<Rightarrow> Inl (Some e, evs @ [Invoked (Some e)], s1))
                else Inl (Some e, evs @ [Invoked (Some e)], s1))))"

function policy_loop ::
  "runtime \<Rightarrow> 's Context \<Rightarrow> ('s \<Rightarrow> error option \<times> 's) \<Rightarrow> nat \<Rightarrow> error option \<Rightarrow>
   event list \<Rightarrow> 's \<Rightarrow> error option \<times> event list \<times> 's" where
  "policy_loop rt ctx operation attempt last_err evs s =
     (if attempt < maxRetries then
        (case policy_attempt rt ctx operation attempt evs s of
           Inl out \<Rightarrow> out
         | Inr (last_err', evs', s') \<Rightarrow>
             policy_loop rt ctx operation (Suc attempt) last_err' evs' s')
      else (Some (wrapError ''max retries (5) exceeded: '' last_err), evs, s))"
  by pat_completeness auto
termination
  by (relation "measure (\<lambda>(rt, ctx, operation, attempt, last_err, evs, s). maxRetries - attempt)")
    auto

definition retry_policy ::
  "runtime \<Rightarrow> 's Context \<Rightarrow> ('s \<Rightarrow> error option \<times> 's) \<Rightarrow> 's \<Rightarrow> error option \<times> event list \<times> 's" where
  "retry_policy rt ctx operation s = policy_loop rt ctx operation 0 None [] s"

section \<open>The inputs of client\_test.go\<close>

text \<open>
  The results of the standard library on the texts that \<^verbatim>\<open>client_test.go\<close> uses: the
  headers \<^verbatim>\<open>"5"\<close> and \<^verbatim>\<open>"1.5"\<close> and the JSON body of \<^verbatim>\<open>TestParseRetryAfter_JSONBody\<close>, and the
  error that \<^verbatim>\<open>json.Unmarshal\<close> returns on an empty input and on a body that is plain text,
  not JSON. The table is consulted at these texts only. An unrepresentable conversion gives the least \<^verbatim>\<open>int64\<close>, as on amd64.
\<close>

definition test_body :: string where
  \<open>test_body = ''{"message": "You are being rate limited.", "retry_after": 3.0, "global": false}''\<close>

definition test_runtime :: runtime where
  "test_runtime =
     \<lparr>ParseFloat = map_of [(''5'', Finite 5), (''1.5'', Finite (3 / 2))],
      Unmarshal = map_of
        [(test_body,
          \<lparr>Message = ''You are being rate limited.'', RetryAfter = Finite 3, Global = False\<rparr>)],
      unrepresentable = (\<lambda>f. - (2 ^ 63))\<rparr>"

text \<open>A 429 response with the given header values and body stream.\<close>

definition response_429 :: "(string \<times> string list) list \<Rightarrow> ReadCloser option \<Rightarrow> http_Response" where
  "response_429 hs stream = \<lparr>StatusCode = 429, Header = map_of hs, Body = stream\<rparr>"

definition header_and_body_error :: RESTError where
  "header_and_body_error =
     \<lparr>Response = Some (response_429 [(''Retry-After'', [''1.5''])] None),
      ResponseBody = Some test_body\<rparr>"

definition body_error :: RESTError where
  "body_error = \<lparr>Response = Some (response_429 [] None), ResponseBody = Some test_body\<rparr>"

definition bare_error :: RESTError where
  "bare_error = \<lparr>Response = Some (response_429 [] None), ResponseBody = None\<rparr>"

definition no_response_error :: RESTError where
  "no_response_error = \<lparr>Response = None, ResponseBody = None\<rparr>"

definition not_found_error :: RESTError where
  "not_found_error =
     \<lparr>Response = Some \<lparr>StatusCode = 404, Header = Map.empty, Body = None\<rparr>,
      ResponseBody = Some ''{}''\<rparr>"

definition stream_error :: RESTError where
  "stream_error =
     \<lparr>Response = Some (response_429 [] (Some \<lparr>unread = test_body, broken = False\<rparr>)),
      ResponseBody = None\<rparr>"

definition plain_text_stream_error :: RESTError where
  "plain_text_stream_error =
     \<lparr>Response = Some (response_429 [] (Some \<lparr>unread = ''Too Many Requests'', broken = False\<rparr>)),
      ResponseBody = None\<rparr>"

text \<open>
  \<^verbatim>\<open>context.Background()\<close>, and a context cancelled before the call; the world is the number
  of calls of the operation so far, as the counters of the tests.
\<close>

definition Background :: "nat Context" where
  "Background = \<lparr>Err = (\<lambda>w. None), Done_first = (\<lambda>d w. (False, w))\<rparr>"

definition cancelled :: "nat Context" where
  "cancelled = \<lparr>Err = (\<lambda>w. Some Canceled), Done_first = (\<lambda>d w. (True, w))\<rparr>"

definition failing :: "error \<Rightarrow> nat \<Rightarrow> (string \<times> error option) \<times> nat" where
  "failing e calls = (([], Some e), Suc calls)"

definition failing_only :: "error \<Rightarrow> nat \<Rightarrow> error option \<times> nat" where
  "failing_only e calls = (Some e, Suc calls)"

declare retry_loop.simps [simp del] policy_loop.simps [simp del]

section \<open>Facts about durations\<close>

lemmas unit_defs = Nanosecond_def Microsecond_def Millisecond_def Second_def

lemma sint_maxBackoff: "sint maxBackoff = 120000000000"
  by (simp add: maxBackoff_def unit_defs)

lemma sint_buffer: "sint (500 * Millisecond) = 500000000"
  by (simp add: unit_defs)

lemma sint_add_in_range:
  fixes a b :: "64 word"
  assumes "- (2 ^ 63) \<le> sint a + sint b" and "sint a + sint b < 2 ^ 63"
  shows "sint (a + b) = sint a + sint b"
  using assms by (simp add: sint_word_add signed_take_bit_int_eq_self)

lemma exponential_fits:
  assumes "n \<le> 33"
  shows "(1000000000::int) * 2 ^ n < 2 ^ 63"
proof -
  have "(2::int) ^ n \<le> 2 ^ 33"
    using assms by (intro power_increasing) auto
  then have "(1000000000::int) * 2 ^ n \<le> 1000000000 * 2 ^ 33"
    by simp
  also have "\<dots> < 2 ^ 63"
    by simp
  finally show ?thesis .
qed

lemma sint_exponential:
  assumes "n \<le> 33"
  shows "sint (baseBackoff * push_bit n 1) = 1000000000 * 2 ^ n"
proof -
  have w: "baseBackoff * push_bit n 1 = (word_of_int (1000000000 * 2 ^ n) :: 64 word)"
    by (simp add: baseBackoff_def unit_defs push_bit_eq_mult)
  have lo: "- (2 ^ 63) \<le> (1000000000::int) * 2 ^ n"
    by (rule order_trans [of _ 0]) simp_all
  show ?thesis
    unfolding w using exponential_fits [OF assms] lo
    by (simp add: sint_sbintrunc' signed_take_bit_int_eq_self del: of_int_mult of_int_power)
qed

lemma unat_attempt:
  fixes attempt :: go_int
  assumes "0 \<le> sint attempt" and "sint attempt \<le> 33"
  shows "unat attempt = nat (sint attempt)"
proof -
  have "uint attempt = take_bit 64 (sint attempt)"
    using uint_sint [of attempt] by simp
  also have "\<dots> = sint attempt"
    using assms by (intro take_bit_int_eq_self) simp_all
  finally show ?thesis
    by (simp add: unat_eq_nat_uint)
qed

section \<open>calculateBackoff\<close>

lemma backoff_suggested:
  assumes "0 < sint d" and "sint d < 120000000000"
  shows "calculateBackoff attempt d = d + 500 * Millisecond"
    and "sint (calculateBackoff attempt d) = sint d + 500000000"
proof -
  show c: "calculateBackoff attempt d = d + 500 * Millisecond"
    using assms by (simp add: calculateBackoff_def word_sless_alt sint_maxBackoff)
  have "sint (d + 500 * Millisecond) = sint d + sint (500 * Millisecond)"
    using assms by (intro sint_add_in_range) (simp_all add: sint_buffer)
  with c show "sint (calculateBackoff attempt d) = sint d + 500000000"
    by (simp add: sint_buffer)
qed

lemma backoff_exponential_branch:
  assumes "sint d \<le> 0 \<or> 120000000000 \<le> sint d"
  shows "calculateBackoff attempt d =
      (let backoff = baseBackoff * push_bit (unat attempt) 1
       in if maxBackoff <s backoff then maxBackoff else backoff)"
  using assms by (auto simp add: calculateBackoff_def word_sless_alt sint_maxBackoff)

lemma backoff_exponential:
  assumes "sint d \<le> 0 \<or> 120000000000 \<le> sint d"
    and "0 \<le> sint attempt" and "sint attempt \<le> 33"
  shows "sint (calculateBackoff attempt d) =
         min (1000000000 * 2 ^ nat (sint attempt)) 120000000000"
proof -
  have u: "unat attempt = nat (sint attempt)"
    using assms(2,3) by (rule unat_attempt)
  have n: "nat (sint attempt) \<le> 33"
    using assms by simp
  show ?thesis
    using sint_exponential [OF n]
    by (simp add: backoff_exponential_branch [OF assms(1)] u Let_def word_sless_alt
        sint_maxBackoff min_def)
qed

lemma backoff_below: "sint (calculateBackoff attempt d) < 120500000000"
proof (cases "0 < sint d \<and> sint d < 120000000000")
  case True
  then have "sint (calculateBackoff attempt d) = sint d + 500000000"
    by (intro backoff_suggested(2)) simp_all
  with True show ?thesis
    by simp
next
  case False
  then have "sint d \<le> 0 \<or> 120000000000 \<le> sint d"
    by auto
  then show ?thesis
    by (simp add: backoff_exponential_branch Let_def word_sless_alt sint_maxBackoff)
qed

lemmas backoff_eval = calculateBackoff_def maxBackoff_def baseBackoff_def unit_defs word_sless_alt

text \<open>
  C3. For every duration \<open>d\<close> with \<open>0 < d < 120 s\<close> and every attempt index,
  \<^verbatim>\<open>calculateBackoff(attempt, d)\<close> is \<open>d\<close> plus 500 milliseconds, whatever the attempt index:
  the sum is the one the code computes, it does not wrap, and two attempt indices give
  the same result.
\<close>

theorem C3_backoff_uses_suggested_wait:
  assumes "0 < sint d" and "sint d < sint (120 * Second)"
  shows "calculateBackoff attempt d = d + 500 * Millisecond \<and>
         sint (calculateBackoff attempt d) = sint d + sint (500 * Millisecond) \<and>
         calculateBackoff attempt d = calculateBackoff attempt' d"
proof -
  have d: "sint d < 120000000000"
    using assms(2) by (simp add: unit_defs)
  show ?thesis
    using backoff_suggested [OF assms(1) d] by (simp add: sint_buffer)
qed

theorem C3_witness:
  "calculateBackoff 0 (3 * Second) = 3 * Second + 500 * Millisecond \<and>
   sint (calculateBackoff 0 (3 * Second)) = sint (3 * Second) + sint (500 * Millisecond) \<and>
   calculateBackoff 0 (3 * Second) = calculateBackoff 4 (3 * Second)"
proof -
  have "0 < sint (3 * Second)" and "sint (3 * Second) < sint (120 * Second)"
    by (simp_all add: unit_defs)
  then show ?thesis
    by (rule C3_backoff_uses_suggested_wait)
qed

text \<open>
  C4, as the claim states it, fails: the product \<^verbatim>\<open>baseBackoff * (1 << attempt)\<close> wraps
  from attempt index 34 on, before the comparison with the ceiling. At index 34 the
  result is a negative duration, where the claim gives 120 s.
\<close>

theorem C4_counterexample:
  "sint (calculateBackoff 34 0) = - 1266874889709551616 \<and>
   min (sint (1 * Second) * 2 ^ 34) (sint (120 * Second)) = 120000000000"
  by (simp add: backoff_eval)

text \<open>
  C4, amended. For every duration \<open>d\<close> with \<open>d \<le> 0\<close> or \<open>d \<ge> 120 s\<close> and every attempt
  index from 0 to 33 (the executor passes 0 to 4), \<^verbatim>\<open>calculateBackoff(attempt, d)\<close> is
  \<open>1 s * 2 ^ attempt\<close> clamped to 120 s; in particular the values at the indices 0 to 4
  with \<open>d = 0\<close> are 1 s, 2 s, 4 s, 8 s and 16 s, and the value at index 10 is 120 s.
\<close>

theorem C4_backoff_exponential_clamped:
  assumes "sint d \<le> 0 \<or> sint (120 * Second) \<le> sint d"
    and "0 \<le> sint attempt" and "sint attempt \<le> 33"
  shows "sint (calculateBackoff attempt d) =
           min (sint baseBackoff * 2 ^ nat (sint attempt)) (sint (120 * Second)) \<and>
         calculateBackoff 0 0 = 1 * Second \<and> calculateBackoff 1 0 = 2 * Second \<and>
         calculateBackoff 2 0 = 4 * Second \<and> calculateBackoff 3 0 = 8 * Second \<and>
         calculateBackoff 4 0 = 16 * Second \<and> calculateBackoff 10 0 = 120 * Second"
proof -
  have d: "sint d \<le> 0 \<or> 120000000000 \<le> sint d"
    using assms(1) by (simp add: unit_defs)
  have "sint (calculateBackoff attempt d) =
          min (sint baseBackoff * 2 ^ nat (sint attempt)) (sint (120 * Second))"
    using backoff_exponential [OF d assms(2,3)] by (simp add: baseBackoff_def unit_defs)
  moreover have "calculateBackoff 0 0 = 1 * Second" "calculateBackoff 1 0 = 2 * Second"
    "calculateBackoff 2 0 = 4 * Second" "calculateBackoff 3 0 = 8 * Second"
    "calculateBackoff 4 0 = 16 * Second" "calculateBackoff 10 0 = 120 * Second"
    by (simp_all add: backoff_eval)
  ultimately show ?thesis
    by simp
qed

theorem C4_witness:
  "sint (calculateBackoff 33 (200 * Second)) =
     min (sint baseBackoff * 2 ^ nat (sint (33 :: go_int))) (sint (120 * Second)) \<and>
   calculateBackoff 0 0 = 1 * Second \<and> calculateBackoff 1 0 = 2 * Second \<and>
   calculateBackoff 2 0 = 4 * Second \<and> calculateBackoff 3 0 = 8 * Second \<and>
   calculateBackoff 4 0 = 16 * Second \<and> calculateBackoff 10 0 = 120 * Second"
proof -
  have "sint (200 * Second) \<le> 0 \<or> sint (120 * Second) \<le> sint (200 * Second)"
    and "0 \<le> sint (33 :: go_int)" and "sint (33 :: go_int) \<le> 33"
    by (simp_all add: unit_defs)
  then show ?thesis
    by (rule C4_backoff_exponential_clamped)
qed

text \<open>
  C10. The 120-second ceiling does not bound the result: for every suggested wait \<open>d\<close>
  with \<open>119.5 s < d < 120 s\<close> the result is \<open>d + 500 ms\<close>, which is above 120 s. Over all
  inputs the result is below 120.5 s, and 120.5 s is the least such bound: a duration
  \<open>b\<close> is above every result exactly when it is at least 120.5 s (the result for the
  suggested wait of 120 s less a nanosecond is 120.5 s less a nanosecond).
\<close>

theorem C10_backoff_supremum:
  "(sint (119500 * Millisecond) < sint d \<and> sint d < sint (120 * Second) \<longrightarrow>
      calculateBackoff attempt d = d + 500 * Millisecond \<and>
      sint (120 * Second) < sint (calculateBackoff attempt d)) \<and>
   sint (calculateBackoff attempt d) < sint (120500 * Millisecond) \<and>
   ((\<forall>a r. sint (calculateBackoff a r) < b) \<longleftrightarrow> sint (120500 * Millisecond) \<le> b)"
proof -
  have bound: "sint (calculateBackoff a r) < 120500000000" for a r
    by (rule backoff_below)
  have top: "sint (calculateBackoff 0 (120 * Second - 1)) = 120499999999"
    by (simp add: backoff_eval)
  have s: "sint (119500 * Millisecond) = 119500000000" "sint (120 * Second) = 120000000000"
    "sint (120500 * Millisecond) = 120500000000"
    by (simp_all add: unit_defs)
  have least: "(\<forall>a r. sint (calculateBackoff a r) < b) \<longleftrightarrow> 120500000000 \<le> b"
  proof
    assume "\<forall>a r. sint (calculateBackoff a r) < b"
    then have "sint (calculateBackoff 0 (120 * Second - 1)) < b"
      by blast
    then show "120500000000 \<le> b"
      by (simp add: top)
  next
    assume "120500000000 \<le> b"
    then show "\<forall>a r. sint (calculateBackoff a r) < b"
      using bound by (meson less_le_trans)
  qed
  have above: "119500000000 < sint d \<and> sint d < 120000000000 \<longrightarrow>
      calculateBackoff attempt d = d + 500 * Millisecond \<and>
      120000000000 < sint (calculateBackoff attempt d)"
  proof (intro impI, elim conjE)
    assume lo: "119500000000 < sint d" and hi: "sint d < 120000000000"
    from lo have pos: "0 < sint d"
      by simp
    from backoff_suggested(2) [OF pos hi, of attempt] lo
    have "120000000000 < sint (calculateBackoff attempt d)"
      by simp
    with backoff_suggested(1) [OF pos hi, of attempt]
    show "calculateBackoff attempt d = d + 500 * Millisecond \<and>
      120000000000 < sint (calculateBackoff attempt d)"
      by (intro conjI)
  qed
  show ?thesis
    unfolding s using above bound [of attempt d] least by (intro conjI)
qed

theorem C10_witness:
  "calculateBackoff 2 (119750 * Millisecond) = 119750 * Millisecond + 500 * Millisecond \<and>
   sint (120 * Second) < sint (calculateBackoff 2 (119750 * Millisecond)) \<and>
   sint (calculateBackoff 2 (119750 * Millisecond)) < sint (120500 * Millisecond) \<and>
   sint (calculateBackoff 2 (119750 * Millisecond)) = 120250000000"
proof -
  have "sint (119500 * Millisecond) < sint (119750 * Millisecond)"
    and "sint (119750 * Millisecond) < sint (120 * Second)"
    by (simp_all add: unit_defs)
  then show ?thesis
    using C10_backoff_supremum [of "119750 * Millisecond" 2 0]
      backoff_suggested(2) [of "119750 * Millisecond" 2]
    by (simp add: unit_defs)
qed

section \<open>parseRetryAfter\<close>

lemma parse_no_response:
  assumes "Response e = None"
  shows "parseRetryAfter rt e = (5 * Second, e)"
  using assms by (simp add: parseRetryAfter_def)

lemma parse_header:
  assumes "Response e = Some resp" and "Header_Get (Header resp) ''Retry-After'' = h"
    and "h \<noteq> []" and "ParseFloat rt h = Some seconds"
  shows "parseRetryAfter rt e = (seconds_Duration rt seconds, e)"
  using assms by (simp add: parseRetryAfter_def Let_def)

lemma parse_preread:
  assumes "Response e = Some resp" and "header_unusable rt resp"
    and "ResponseBody e = Some b" and "Unmarshal rt b = Some r"
    and "float64_positive (RetryAfter r)"
  shows "parseRetryAfter rt e = (seconds_Duration rt (RetryAfter r), e)"
  using assms by (auto simp add: parseRetryAfter_def Let_def header_unusable_def)

lemma parse_no_stream:
  assumes "Response e = Some resp" and "header_unusable rt resp"
    and "preread_unusable rt e" and "Body resp = None"
  shows "parseRetryAfter rt e = (5 * Second, e)"
  using assms
  by (auto simp add: parseRetryAfter_def Let_def header_unusable_def preread_unusable_def
      payload_unusable_def split: option.splits)

lemma parse_stream:
  assumes "Response e = Some resp" and "header_unusable rt resp"
    and "preread_unusable rt e" and "Body resp = Some stream"
  shows "parseRetryAfter rt e =
     ((case fst (ReadAll stream) of
         None \<Rightarrow> 5 * Second
       | Some b \<Rightarrow>
           (case Unmarshal rt b of
              None \<Rightarrow> 5 * Second
            | Some r \<Rightarrow>
                if float64_positive (RetryAfter r) then seconds_Duration rt (RetryAfter r)
                else 5 * Second)),
      e\<lparr>Response := Some (resp\<lparr>Body := Some (snd (ReadAll stream))\<rparr>)\<rparr>)"
  using assms
  by (auto simp add: parseRetryAfter_def Let_def header_unusable_def preread_unusable_def
      payload_unusable_def split: option.splits prod.splits)

lemma seconds_one_and_a_half: "seconds_Duration rt (Finite (3 / 2)) = 1500 * Millisecond"
  by code_simp

lemma seconds_three: "seconds_Duration rt (Finite 3) = 3 * Second"
  by code_simp

lemma decided_unchanged:
  assumes "decided_without_stream rt e"
  shows "snd (parseRetryAfter rt e) = e"
  using assms
  by (auto simp add: decided_without_stream_def parseRetryAfter_def Let_def
      header_unusable_def preread_unusable_def payload_unusable_def split: option.splits)

lemma read_to_the_end: "snd (ReadAll (snd (ReadAll stream))) = snd (ReadAll stream)"
  by (simp add: ReadAll_def)

lemma parse_settles:
  "snd (parseRetryAfter rt (snd (parseRetryAfter rt e))) = snd (parseRetryAfter rt e)"
proof (cases "decided_without_stream rt e")
  case True
  then show ?thesis
    by (simp add: decided_unchanged)
next
  case False
  then obtain resp stream where r: "Response e = Some resp" and h: "header_unusable rt resp"
    and p: "preread_unusable rt e" and b: "Body resp = Some stream"
    by (auto simp add: decided_without_stream_def split: option.splits)
  define resp' where "resp' = resp\<lparr>Body := Some (snd (ReadAll stream))\<rparr>"
  define e' where "e' = e\<lparr>Response := Some resp'\<rparr>"
  have first: "snd (parseRetryAfter rt e) = e'"
    by (simp add: parse_stream [OF r h p b] e'_def resp'_def)
  have r': "Response e' = Some resp'"
    by (simp add: e'_def)
  have h': "header_unusable rt resp'"
    using h by (simp add: header_unusable_def resp'_def)
  have p': "preread_unusable rt e'"
    using p by (simp add: preread_unusable_def e'_def)
  have b': "Body resp' = Some (snd (ReadAll stream))"
    by (simp add: resp'_def)
  have "snd (parseRetryAfter rt e') = e'"
    unfolding parse_stream [OF r' h' p' b']
    by (simp add: read_to_the_end e'_def resp'_def)
  with first show ?thesis
    by simp
qed

lemma unusable_stream_fallback:
  assumes "Response e = Some resp" and "header_unusable rt resp"
    and "preread_unusable rt e" and "stream_unusable rt resp"
  shows "fst (parseRetryAfter rt e) = 5 * Second"
proof (cases "Body resp")
  case None
  then show ?thesis
    by (simp add: parse_no_stream [OF assms(1,2,3)])
next
  case (Some stream)
  with assms(4) show ?thesis
    by (simp add: parse_stream [OF assms(1,2,3) Some] stream_unusable_def payload_unusable_def
        split: option.splits)
qed

lemma drained_stream_unusable:
  assumes "payload_unusable rt []"
  shows "stream_unusable rt (resp\<lparr>Body := Some (snd (ReadAll stream))\<rparr>)"
  using assms by (simp add: stream_unusable_def ReadAll_def)

lemma second_call_fallback:
  assumes "payload_unusable rt []" and "\<not> decided_without_stream rt e"
  shows "fst (parseRetryAfter rt (snd (parseRetryAfter rt e))) = 5 * Second"
proof -
  from assms(2) obtain resp stream where r: "Response e = Some resp"
    and h: "header_unusable rt resp" and p: "preread_unusable rt e"
    and b: "Body resp = Some stream"
    by (auto simp add: decided_without_stream_def split: option.splits)
  define resp' where "resp' = resp\<lparr>Body := Some (snd (ReadAll stream))\<rparr>"
  define e' where "e' = e\<lparr>Response := Some resp'\<rparr>"
  have first: "snd (parseRetryAfter rt e) = e'"
    by (simp add: parse_stream [OF r h p b] e'_def resp'_def)
  have r': "Response e' = Some resp'"
    by (simp add: e'_def)
  have h': "header_unusable rt resp'"
    using h by (simp add: header_unusable_def resp'_def)
  have p': "preread_unusable rt e'"
    using p by (simp add: preread_unusable_def e'_def)
  have s': "stream_unusable rt resp'"
    unfolding resp'_def using assms(1) by (rule drained_stream_unusable)
  from unusable_stream_fallback [OF r' h' p' s'] first show ?thesis
    by simp
qed

lemma repeat_characterised:
  assumes "payload_unusable rt []"
  shows "fst (parseRetryAfter rt (snd (parseRetryAfter rt e))) = fst (parseRetryAfter rt e) \<longleftrightarrow>
         \<not> decided_by_stream rt e \<or> fst (parseRetryAfter rt e) = 5 * Second"
proof (cases "decided_without_stream rt e")
  case True
  then have "snd (parseRetryAfter rt e) = e"
    by (rule decided_unchanged)
  moreover from True have "\<not> decided_by_stream rt e"
    by (auto simp add: decided_without_stream_def decided_by_stream_def stream_unusable_def
        split: option.splits)
  ultimately show ?thesis
    by simp
next
  case False
  then obtain resp where r: "Response e = Some resp"
    and h: "header_unusable rt resp" and p: "preread_unusable rt e"
    by (auto simp add: decided_without_stream_def split: option.splits)
  have second: "fst (parseRetryAfter rt (snd (parseRetryAfter rt e))) = 5 * Second"
    using assms False by (rule second_call_fallback)
  have "fst (parseRetryAfter rt e) = 5 * Second" if "\<not> decided_by_stream rt e"
  proof -
    from that r h p have "stream_unusable rt resp"
      by (simp add: decided_by_stream_def)
    with r h p show ?thesis
      by (rule unusable_stream_fallback)
  qed
  with second show ?thesis
    by auto
qed

text \<open>
  C2. The priority of the sources: a \<^verbatim>\<open>Retry-After\<close> header that parses as a float decides
  the result, whatever pre-read payload or body stream the error also carries, and
  nothing is read from the stream; the header \<^verbatim>\<open>"1.5"\<close> (parsed to the float 1.5) gives
  exactly 1500 milliseconds; with no header, a pre-read payload decoded with
  \<^verbatim>\<open>retry_after\<close> 3.0 gives exactly 3 seconds.
\<close>

theorem C2_parse_priority:
  "(Response e = Some resp \<and> Header_Get (Header resp) ''Retry-After'' = h \<and> h \<noteq> [] \<and>
      ParseFloat rt h = Some seconds \<longrightarrow>
      parseRetryAfter rt e = (seconds_Duration rt seconds, e)) \<and>
   (Response e = Some resp \<and> Header resp ''Retry-After'' = Some (''1.5'' # others) \<and>
      ParseFloat rt ''1.5'' = Some (Finite (3 / 2)) \<longrightarrow>
      parseRetryAfter rt e = (1500 * Millisecond, e)) \<and>
   (Response e = Some resp \<and> Header_Get (Header resp) ''Retry-After'' = [] \<and>
      ResponseBody e = Some b \<and> Unmarshal rt b = Some r \<and> RetryAfter r = Finite 3 \<longrightarrow>
      parseRetryAfter rt e = (3 * Second, e))"
proof (intro conjI impI; elim conjE)
  assume "Response e = Some resp" and "Header_Get (Header resp) ''Retry-After'' = h"
    and "h \<noteq> []" and "ParseFloat rt h = Some seconds"
  then show "parseRetryAfter rt e = (seconds_Duration rt seconds, e)"
    by (rule parse_header)
next
  assume r: "Response e = Some resp"
    and "Header resp ''Retry-After'' = Some (''1.5'' # others)"
    and f: "ParseFloat rt ''1.5'' = Some (Finite (3 / 2))"
  then have "Header_Get (Header resp) ''Retry-After'' = ''1.5''"
    by (simp add: Header_Get_def)
  from parse_header [OF r this _ f]
  have "parseRetryAfter rt e = (seconds_Duration rt (Finite (3 / 2)), e)"
    by simp
  then show "parseRetryAfter rt e = (1500 * Millisecond, e)"
    by (simp only: seconds_one_and_a_half)
next
  assume r: "Response e = Some resp" and "Header_Get (Header resp) ''Retry-After'' = []"
    and b: "ResponseBody e = Some b" and u: "Unmarshal rt b = Some r"
    and three: "RetryAfter r = Finite 3"
  then have h: "header_unusable rt resp"
    by (simp add: header_unusable_def)
  from three have "float64_positive (RetryAfter r)"
    by simp
  from parse_preread [OF r h b u this] three
  have "parseRetryAfter rt e = (seconds_Duration rt (Finite 3), e)"
    by simp
  then show "parseRetryAfter rt e = (3 * Second, e)"
    by (simp only: seconds_three)
qed

lemma test_header:
  "Header_Get (Header (response_429 [(''Retry-After'', [''1.5''])] None)) ''Retry-After'' = ''1.5''"
  by (simp add: response_429_def Header_Get_def)

theorem C2_witness:
  "parseRetryAfter test_runtime header_and_body_error = (1500 * Millisecond, header_and_body_error) \<and>
   parseRetryAfter test_runtime header_and_body_error =
     (seconds_Duration test_runtime (Finite (3 / 2)), header_and_body_error) \<and>
   parseRetryAfter test_runtime body_error = (3 * Second, body_error)"
proof -
  let ?r1 = "response_429 [(''Retry-After'', [''1.5''])] None"
  let ?r2 = "response_429 [] None"
  let ?rl = "\<lparr>Message = ''You are being rate limited.'', RetryAfter = Finite 3, Global = False\<rparr>"
  have 1: "Response header_and_body_error = Some ?r1 \<and>
      Header_Get (Header ?r1) ''Retry-After'' = ''1.5'' \<and> ''1.5'' \<noteq> [] \<and>
      ParseFloat test_runtime ''1.5'' = Some (Finite (3 / 2))"
    by (simp add: header_and_body_error_def test_header test_runtime_def)
  have 2: "Response header_and_body_error = Some ?r1 \<and>
      Header ?r1 ''Retry-After'' = Some (''1.5'' # []) \<and>
      ParseFloat test_runtime ''1.5'' = Some (Finite (3 / 2))"
    by (simp add: header_and_body_error_def response_429_def test_runtime_def)
  have 3: "Response body_error = Some ?r2 \<and> Header_Get (Header ?r2) ''Retry-After'' = [] \<and>
      ResponseBody body_error = Some test_body \<and> Unmarshal test_runtime test_body = Some ?rl \<and>
      RetryAfter ?rl = Finite 3"
    by (simp add: body_error_def response_429_def Header_Get_def test_runtime_def)
  from C2_parse_priority [of header_and_body_error ?r1 "''1.5''" test_runtime "Finite (3 / 2)" "[]" test_body ?rl] 1 2
  have a: "parseRetryAfter test_runtime header_and_body_error =
     (seconds_Duration test_runtime (Finite (3 / 2)), header_and_body_error)"
    and b: "parseRetryAfter test_runtime header_and_body_error = (1500 * Millisecond, header_and_body_error)"
    by blast+
  from C2_parse_priority [of body_error ?r2 "[]" test_runtime "Finite 3" "[]" test_body ?rl] 3
  have c: "parseRetryAfter test_runtime body_error = (3 * Second, body_error)"
    by blast
  from a b c show ?thesis
    by (intro conjI)
qed

text \<open>
  C8. \<^verbatim>\<open>parseRetryAfter\<close> returns a duration for every error and has no failure to
  propagate. With no response attached the result is the fallback of 5 seconds; with a
  response whose header, pre-read payload and body stream are all absent or unusable it
  is the fallback too. An unusable source falls through to the next one: under an
  unusable header a usable pre-read payload decides, and under an unusable header and
  pre-read payload a usable payload read from the stream decides.
\<close>

theorem C8_parse_total_with_fallback:
  "(\<exists>d e'. parseRetryAfter rt e = (d, e')) \<and>
   (Response e = None \<longrightarrow> parseRetryAfter rt e = (5 * Second, e)) \<and>
   (Response e = Some resp \<and> header_unusable rt resp \<and> preread_unusable rt e \<and>
      stream_unusable rt resp \<longrightarrow> fst (parseRetryAfter rt e) = 5 * Second) \<and>
   (Response e = Some resp \<and> header_unusable rt resp \<and> ResponseBody e = Some b \<and>
      Unmarshal rt b = Some r \<and> float64_positive (RetryAfter r) \<longrightarrow>
      fst (parseRetryAfter rt e) = seconds_Duration rt (RetryAfter r)) \<and>
   (Response e = Some resp \<and> header_unusable rt resp \<and> preread_unusable rt e \<and>
      Body resp = Some stream \<and> fst (ReadAll stream) = Some b \<and>
      Unmarshal rt b = Some r \<and> float64_positive (RetryAfter r) \<longrightarrow>
      fst (parseRetryAfter rt e) = seconds_Duration rt (RetryAfter r))"
proof (intro conjI impI; (elim conjE)?)
  show "\<exists>d e'. parseRetryAfter rt e = (d, e')"
    by (cases "parseRetryAfter rt e") blast
next
  assume "Response e = None"
  then show "parseRetryAfter rt e = (5 * Second, e)"
    by (rule parse_no_response)
next
  assume r: "Response e = Some resp" and h: "header_unusable rt resp"
    and p: "preread_unusable rt e" and s: "stream_unusable rt resp"
  show "fst (parseRetryAfter rt e) = 5 * Second"
  proof (cases "Body resp")
    case None
    then show ?thesis
      by (simp add: parse_no_stream [OF r h p])
  next
    case (Some stream)
    with s show ?thesis
      by (simp add: parse_stream [OF r h p Some] stream_unusable_def payload_unusable_def
          split: option.splits)
  qed
next
  assume "Response e = Some resp" and "header_unusable rt resp"
    and "ResponseBody e = Some b" and "Unmarshal rt b = Some r"
    and "float64_positive (RetryAfter r)"
  then show "fst (parseRetryAfter rt e) = seconds_Duration rt (RetryAfter r)"
    by (simp add: parse_preread)
next
  assume r: "Response e = Some resp" and h: "header_unusable rt resp"
    and p: "preread_unusable rt e" and b: "Body resp = Some stream"
    and "fst (ReadAll stream) = Some b" and "Unmarshal rt b = Some r"
    and "float64_positive (RetryAfter r)"
  then show "fst (parseRetryAfter rt e) = seconds_Duration rt (RetryAfter r)"
    by (simp add: parse_stream [OF r h p b])
qed

theorem C8_witness:
  "parseRetryAfter test_runtime no_response_error = (5 * Second, no_response_error) \<and>
   fst (parseRetryAfter test_runtime bare_error) = 5 * Second \<and>
   fst (parseRetryAfter test_runtime body_error) = 3 * Second \<and>
   fst (parseRetryAfter test_runtime stream_error) = 3 * Second"
proof -
  let ?none = "no_response_error"
  let ?resp = "response_429 [] None"
  let ?stream = "\<lparr>unread = test_body, broken = False\<rparr>"
  let ?resp' = "response_429 [] (Some ?stream)"
  let ?rl = "\<lparr>Message = ''You are being rate limited.'', RetryAfter = Finite 3, Global = False\<rparr>"
  have h: "header_unusable test_runtime ?resp" "header_unusable test_runtime ?resp'"
    by (simp_all add: header_unusable_def response_429_def Header_Get_def)
  have u: "Unmarshal test_runtime test_body = Some ?rl" "float64_positive (RetryAfter ?rl)"
    by (simp_all add: test_runtime_def)
  have s: "stream_unusable test_runtime ?resp"
    by (simp add: stream_unusable_def response_429_def)
  have st: "Body ?resp' = Some ?stream"
    by (simp add: response_429_def)
  have 1: "Response ?none = None"
    by (simp add: no_response_error_def)
  have 2: "Response bare_error = Some ?resp \<and> header_unusable test_runtime ?resp \<and>
      preread_unusable test_runtime bare_error \<and> stream_unusable test_runtime ?resp"
    by (simp add: h s bare_error_def preread_unusable_def)
  have 3: "Response body_error = Some ?resp \<and> header_unusable test_runtime ?resp \<and>
      ResponseBody body_error = Some test_body \<and>
      Unmarshal test_runtime test_body = Some ?rl \<and> float64_positive (RetryAfter ?rl)"
    by (simp add: h u body_error_def)
  have 4: "Response stream_error = Some ?resp' \<and> header_unusable test_runtime ?resp' \<and>
      preread_unusable test_runtime stream_error \<and> Body ?resp' = Some ?stream \<and>
      fst (ReadAll ?stream) = Some test_body \<and>
      Unmarshal test_runtime test_body = Some ?rl \<and> float64_positive (RetryAfter ?rl)"
    by (simp add: h u st stream_error_def preread_unusable_def ReadAll_def)
  have three: "seconds_Duration test_runtime (RetryAfter ?rl) = 3 * Second"
    by (simp add: seconds_three)
  from C8_parse_total_with_fallback [of test_runtime ?none] 1
  have a: "parseRetryAfter test_runtime ?none = (5 * Second, ?none)"
    by blast
  from C8_parse_total_with_fallback [of test_runtime bare_error ?resp] 2
  have b: "fst (parseRetryAfter test_runtime bare_error) = 5 * Second"
    by blast
  from C8_parse_total_with_fallback [of test_runtime body_error ?resp test_body ?rl] 3
  have "fst (parseRetryAfter test_runtime body_error) = seconds_Duration test_runtime (RetryAfter ?rl)"
    by blast
  then have c: "fst (parseRetryAfter test_runtime body_error) = 3 * Second"
    by (simp only: three)
  from C8_parse_total_with_fallback
    [of test_runtime stream_error ?resp' test_body ?rl ?stream] 4
  have "fst (parseRetryAfter test_runtime stream_error) = seconds_Duration test_runtime (RetryAfter ?rl)"
    by blast
  then have d: "fst (parseRetryAfter test_runtime stream_error) = 3 * Second"
    by (simp only: three)
  from a b c d show ?thesis
    by (intro conjI)
qed

text \<open>
  C5, as the claim states it, fails for \<^verbatim>\<open>parseRetryAfter\<close>: on an error whose wait signal
  is available only through the live body stream the first call reads the stream to its
  end and returns the streamed 3 seconds; a second call on the same error finds the
  stream empty and returns the fallback of 5 seconds.
\<close>

theorem C5_counterexample:
  "fst (parseRetryAfter test_runtime stream_error) = 3 * Second \<and>
   fst (parseRetryAfter test_runtime (snd (parseRetryAfter test_runtime stream_error))) = 5 * Second \<and>
   fst (parseRetryAfter test_runtime (snd (parseRetryAfter test_runtime stream_error))) \<noteq>
     fst (parseRetryAfter test_runtime stream_error)"
proof -
  let ?resp = "response_429 [] (Some \<lparr>unread = test_body, broken = False\<rparr>)"
  let ?resp' = "response_429 [] (Some \<lparr>unread = [], broken = False\<rparr>)"
  let ?e' = "\<lparr>Response = Some ?resp', ResponseBody = None\<rparr>"
  have h: "header_unusable test_runtime ?resp" "header_unusable test_runtime ?resp'"
    by (simp_all add: header_unusable_def response_429_def Header_Get_def)
  have p: "Unmarshal test_runtime test_body =
      Some \<lparr>Message = ''You are being rate limited.'', RetryAfter = Finite 3, Global = False\<rparr>"
    by (simp add: test_runtime_def)
  have q: "Unmarshal test_runtime [] = None"
    by (simp add: test_runtime_def test_body_def)
  have b: "Body ?resp = Some \<lparr>unread = test_body, broken = False\<rparr>"
    "Body ?resp' = Some \<lparr>unread = [], broken = False\<rparr>"
    "?resp\<lparr>Body := Some \<lparr>unread = [], broken = False\<rparr>\<rparr> = ?resp'"
    "?resp'\<lparr>Body := Some \<lparr>unread = [], broken = False\<rparr>\<rparr> = ?resp'"
    by (simp_all add: response_429_def)
  have u: "preread_unusable test_runtime stream_error" "preread_unusable test_runtime ?e'"
    by (simp_all add: preread_unusable_def stream_error_def)
  have r: "Response stream_error = Some ?resp" "Response ?e' = Some ?resp'"
    by (simp_all add: stream_error_def)
  have first: "parseRetryAfter test_runtime stream_error = (3 * Second, ?e')"
    unfolding parse_stream [OF r(1) h(1) u(1) b(1)]
    by (simp add: p b ReadAll_def stream_error_def seconds_three)
  have second: "parseRetryAfter test_runtime ?e' = (5 * Second, ?e')"
    unfolding parse_stream [OF r(2) h(2) u(2) b(2)]
    by (simp add: q b ReadAll_def)
  have "3 * Second \<noteq> 5 * Second"
    by (simp add: unit_defs)
  with first second show ?thesis
    by simp
qed

text \<open>
  C5, amended. \<^verbatim>\<open>calculateBackoff\<close> is a function of its two arguments alone.
  \<^verbatim>\<open>parseRetryAfter\<close> reads nothing but its argument, and (\<^verbatim>\<open>json.Unmarshal\<close> returning an
  error on an empty input) two calls with identical inputs return identical durations,
  and identical backoffs, unless the first call is decided by a usable payload read
  from the live body stream: exactly then, and when that payload's duration is not the
  fallback of 5 seconds, the repeated call differs, because the first call has read the
  stream to its end. This covers the calls decided by the header, by the pre-read
  payload or by the fallback, also a fallback reached through an unusable stream. A call
  decided without the stream leaves the error as it was; a call that reads the stream
  changes the error by that reading only, and leaves it in a state that further calls
  do not change.
\<close>

theorem C5_parse_repeatable_unless_streamed:
  "(payload_unusable rt [] \<longrightarrow>
      (fst (parseRetryAfter rt (snd (parseRetryAfter rt e))) = fst (parseRetryAfter rt e) \<longleftrightarrow>
         \<not> decided_by_stream rt e \<or> fst (parseRetryAfter rt e) = 5 * Second) \<and>
      (\<not> decided_by_stream rt e \<longrightarrow>
         fst (parseRetryAfter rt (snd (parseRetryAfter rt e))) = fst (parseRetryAfter rt e) \<and>
         calculateBackoff attempt (fst (parseRetryAfter rt (snd (parseRetryAfter rt e)))) =
           calculateBackoff attempt (fst (parseRetryAfter rt e)))) \<and>
   (decided_without_stream rt e \<longrightarrow>
      snd (parseRetryAfter rt e) = e \<and>
      fst (parseRetryAfter rt (snd (parseRetryAfter rt e))) = fst (parseRetryAfter rt e) \<and>
      calculateBackoff attempt (fst (parseRetryAfter rt (snd (parseRetryAfter rt e)))) =
        calculateBackoff attempt (fst (parseRetryAfter rt e))) \<and>
   snd (parseRetryAfter rt (snd (parseRetryAfter rt e))) = snd (parseRetryAfter rt e) \<and>
   ResponseBody (snd (parseRetryAfter rt e)) = ResponseBody e \<and>
   map_option StatusCode (Response (snd (parseRetryAfter rt e))) = map_option StatusCode (Response e) \<and>
   map_option Header (Response (snd (parseRetryAfter rt e))) = map_option Header (Response e)"
proof (intro conjI impI)
  assume u: "payload_unusable rt []"
  then show "fst (parseRetryAfter rt (snd (parseRetryAfter rt e))) = fst (parseRetryAfter rt e) \<longleftrightarrow>
      \<not> decided_by_stream rt e \<or> fst (parseRetryAfter rt e) = 5 * Second"
    by (rule repeat_characterised)
next
  assume "payload_unusable rt []" and "\<not> decided_by_stream rt e"
  then show same: "fst (parseRetryAfter rt (snd (parseRetryAfter rt e))) = fst (parseRetryAfter rt e)"
    by (simp add: repeat_characterised)
  then show "calculateBackoff attempt (fst (parseRetryAfter rt (snd (parseRetryAfter rt e)))) =
      calculateBackoff attempt (fst (parseRetryAfter rt e))"
    by simp
next
  assume d: "decided_without_stream rt e"
  then show same: "snd (parseRetryAfter rt e) = e"
    by (rule decided_unchanged)
  then show "fst (parseRetryAfter rt (snd (parseRetryAfter rt e))) = fst (parseRetryAfter rt e)"
    by simp
  from same show "calculateBackoff attempt (fst (parseRetryAfter rt (snd (parseRetryAfter rt e)))) =
      calculateBackoff attempt (fst (parseRetryAfter rt e))"
    by simp
next
  show "snd (parseRetryAfter rt (snd (parseRetryAfter rt e))) = snd (parseRetryAfter rt e)"
    by (rule parse_settles)
next
  show "ResponseBody (snd (parseRetryAfter rt e)) = ResponseBody e"
    by (simp add: parseRetryAfter_def Let_def split: prod.splits)
next
  show "map_option StatusCode (Response (snd (parseRetryAfter rt e))) = map_option StatusCode (Response e)"
    by (auto simp add: parseRetryAfter_def Let_def split: prod.splits)
next
  show "map_option Header (Response (snd (parseRetryAfter rt e))) = map_option Header (Response e)"
    by (auto simp add: parseRetryAfter_def Let_def split: prod.splits)
qed

lemma plain_text_stream_unusable:
  "stream_unusable test_runtime
     (response_429 [] (Some \<lparr>unread = ''Too Many Requests'', broken = False\<rparr>))"
  by (simp add: stream_unusable_def response_429_def ReadAll_def payload_unusable_def
      test_runtime_def test_body_def)

lemma empty_input_unusable: "payload_unusable test_runtime []"
  by (simp add: payload_unusable_def test_runtime_def test_body_def)

theorem C5_witness:
  "fst (parseRetryAfter test_runtime
      (snd (parseRetryAfter test_runtime plain_text_stream_error))) =
     fst (parseRetryAfter test_runtime plain_text_stream_error) \<and>
   fst (parseRetryAfter test_runtime plain_text_stream_error) = 5 * Second \<and>
   calculateBackoff 0 (fst (parseRetryAfter test_runtime
       (snd (parseRetryAfter test_runtime plain_text_stream_error)))) =
     calculateBackoff 0 (fst (parseRetryAfter test_runtime plain_text_stream_error)) \<and>
   snd (parseRetryAfter test_runtime header_and_body_error) = header_and_body_error \<and>
   fst (parseRetryAfter test_runtime (snd (parseRetryAfter test_runtime header_and_body_error))) =
     fst (parseRetryAfter test_runtime header_and_body_error) \<and>
   calculateBackoff 0 (fst (parseRetryAfter test_runtime
       (snd (parseRetryAfter test_runtime header_and_body_error)))) =
     calculateBackoff 0 (fst (parseRetryAfter test_runtime header_and_body_error))"
proof -
  let ?resp = "response_429 [] (Some \<lparr>unread = ''Too Many Requests'', broken = False\<rparr>)"
  have r: "Response plain_text_stream_error = Some ?resp"
    by (simp add: plain_text_stream_error_def)
  have h: "header_unusable test_runtime ?resp"
    by (simp add: header_unusable_def response_429_def Header_Get_def)
  have p: "preread_unusable test_runtime plain_text_stream_error"
    by (simp add: preread_unusable_def plain_text_stream_error_def)
  have n: "\<not> decided_by_stream test_runtime plain_text_stream_error"
    by (simp add: decided_by_stream_def r plain_text_stream_unusable)
  have five: "fst (parseRetryAfter test_runtime plain_text_stream_error) = 5 * Second"
    using r h p plain_text_stream_unusable by (rule unusable_stream_fallback)
  from C5_parse_repeatable_unless_streamed [of test_runtime plain_text_stream_error 0]
    empty_input_unusable n
  have a: "fst (parseRetryAfter test_runtime
        (snd (parseRetryAfter test_runtime plain_text_stream_error))) =
      fst (parseRetryAfter test_runtime plain_text_stream_error)"
    and b: "calculateBackoff 0 (fst (parseRetryAfter test_runtime
        (snd (parseRetryAfter test_runtime plain_text_stream_error)))) =
      calculateBackoff 0 (fst (parseRetryAfter test_runtime plain_text_stream_error))"
    by blast+
  have "\<not> header_unusable test_runtime (response_429 [(''Retry-After'', [''1.5''])] None)"
    by (simp add: header_unusable_def test_header test_runtime_def)
  then have "decided_without_stream test_runtime header_and_body_error"
    by (simp add: decided_without_stream_def header_and_body_error_def)
  with C5_parse_repeatable_unless_streamed [of test_runtime header_and_body_error 0]
  have c: "snd (parseRetryAfter test_runtime header_and_body_error) = header_and_body_error"
    and d: "fst (parseRetryAfter test_runtime
        (snd (parseRetryAfter test_runtime header_and_body_error))) =
      fst (parseRetryAfter test_runtime header_and_body_error)"
    and e: "calculateBackoff 0 (fst (parseRetryAfter test_runtime
        (snd (parseRetryAfter test_runtime header_and_body_error)))) =
      calculateBackoff 0 (fst (parseRetryAfter test_runtime header_and_body_error))"
    by blast+
  from a five b c d e show ?thesis
    by (intro conjI)
qed

section \<open>executeWithRetry\<close>

lemma invocations_append: "invocations (xs @ ys) = invocations xs + invocations ys"
  by (induction xs rule: invocations.induct) simp_all

lemma rate_limited_cases:
  "rate_limited e \<longleftrightarrow> (\<exists>r resp. e = RESTError_ptr r \<and> Response r = Some resp \<and> StatusCode resp = 429)"
  by (auto simp add: rate_limited_def split: error.splits option.splits)

lemma iteration_cancelled:
  assumes "Err ctx s = Some c"
  shows "iteration rt ctx operation attempt result0 evs s =
     Return \<lparr>result = result0, err = Some c, events = evs, world = s\<rparr>"
  using assms by (simp add: iteration_def)

lemma iteration_success:
  assumes "Err ctx s = None" and "operation s = ((v, None), s1)"
  shows "iteration rt ctx operation attempt result0 evs s =
     Return \<lparr>result = v, err = None, events = evs @ [Invoked None], world = s1\<rparr>"
  using assms by (simp add: iteration_def)

lemma iteration_not_rate_limited:
  assumes "Err ctx s = None" and "operation s = ((v, Some e), s1)" and "\<not> rate_limited e"
  shows "iteration rt ctx operation attempt result0 evs s =
     Return \<lparr>result = v, err = Some e, events = evs @ [Invoked (Some e)], world = s1\<rparr>"
  using assms
  by (auto simp add: iteration_def rate_limited_def Let_def split: error.splits option.splits)

lemma iteration_rate_limited:
  assumes "Err ctx s = None" and "operation s = ((v, Some (RESTError_ptr r)), s1)"
    and "rate_limited (RESTError_ptr r)"
  shows "iteration rt ctx operation attempt result0 evs s =
     (let waitDuration = calculateBackoff (of_nat attempt) (fst (parseRetryAfter rt r));
          s2 = snd (Done_first ctx waitDuration s1)
      in if fst (Done_first ctx waitDuration s1)
         then Return \<lparr>result = v, err = Err ctx s2,
                events = evs @ [Invoked (Some (RESTError_ptr r)), Interrupted waitDuration],
                world = s2\<rparr>
         else Continue v (Some (RESTError_ptr (snd (parseRetryAfter rt r))))
                (evs @ [Invoked (Some (RESTError_ptr r)), Waited waitDuration]) s2)"
  using assms
  by (auto simp add: iteration_def rate_limited_def Let_def split: option.splits prod.splits)

lemma iteration_Return_invocations:
  assumes "iteration rt ctx operation attempt result0 evs s = Return out"
  shows "invocations (events out) \<le> Suc (invocations evs)"
  using assms
  by (auto simp add: iteration_def Let_def invocations_append
      split: if_splits option.splits prod.splits error.splits bool.splits)

lemma iteration_Continue_invocations:
  assumes "iteration rt ctx operation attempt result0 evs s = Continue v e evs' s'"
  shows "invocations evs' = Suc (invocations evs)"
  using assms
  by (auto simp add: iteration_def Let_def invocations_append
      split: if_splits option.splits prod.splits error.splits bool.splits)

lemma retry_loop_bound:
  "invocations (events (retry_loop rt ctx operation attempt result0 err0 evs s))
     \<le> invocations evs + (maxRetries - attempt)"
proof (induction rt ctx operation attempt result0 err0 evs s rule: retry_loop.induct)
  case (1 rt ctx operation attempt result0 err0 evs s)
  show ?case
  proof (cases "attempt < maxRetries")
    case False
    then show ?thesis
      by (subst retry_loop.simps) simp
  next
    case True
    show ?thesis
    proof (cases "iteration rt ctx operation attempt result0 evs s")
      case (Return out)
      with True iteration_Return_invocations [OF Return] show ?thesis
        by (subst retry_loop.simps) simp
    next
      case (Continue v e evs' s')
      from "1.IH" [OF True Continue] iteration_Continue_invocations [OF Continue] True
      have "invocations (events (retry_loop rt ctx operation (Suc attempt) v e evs' s'))
          \<le> invocations evs + (maxRetries - attempt)"
        by simp
      with True Continue show ?thesis
        by (subst retry_loop.simps) simp
    qed
  qed
qed

lemma retry_loop_exhausts:
  assumes "always_rate_limited operation" and "never_signaled ctx"
    and "attempt \<le> maxRetries"
    and "attempt = 0 \<or>
      (\<exists>r pre d. evs = pre @ [Invoked (Some (RESTError_ptr r)), Waited d] \<and>
         rate_limited (RESTError_ptr r) \<and>
         err0 = Some (RESTError_ptr (snd (parseRetryAfter rt r))))"
  shows "invocations (events (retry_loop rt ctx operation attempt result0 err0 evs s)) =
           invocations evs + (maxRetries - attempt) \<and>
         (\<exists>r pre d.
            events (retry_loop rt ctx operation attempt result0 err0 evs s) =
              pre @ [Invoked (Some (RESTError_ptr r)), Waited d] \<and>
            rate_limited (RESTError_ptr r) \<and>
            err (retry_loop rt ctx operation attempt result0 err0 evs s) =
              Some (wrapError ''max retries (5) exceeded: ''
                (Some (RESTError_ptr (snd (parseRetryAfter rt r))))))"
  using assms
proof (induction rt ctx operation attempt result0 err0 evs s rule: retry_loop.induct)
  case (1 rt ctx operation attempt result0 err0 evs s)
  show ?case
  proof (cases "attempt < maxRetries")
    case False
    with "1.prems"(3) have "attempt = maxRetries"
      by simp
    then have "attempt \<noteq> 0"
      by (simp add: maxRetries_def)
    with "1.prems"(4) False show ?thesis
      by (subst (1 2 3) retry_loop.simps) auto
  next
    case True
    from "1.prems"(2) have quiet: "Err ctx s = None"
      by (simp add: never_signaled_def)
    from "1.prems"(1) obtain v e s1 where op: "operation s = ((v, Some e), s1)"
      and rl: "rate_limited e"
      by (cases "operation s") (fastforce simp add: always_rate_limited_def dest: spec [of _ s])
    from rl obtain r where e: "e = RESTError_ptr r"
      by (auto simp add: rate_limited_cases)
    define d where "d = calculateBackoff (of_nat attempt) (fst (parseRetryAfter rt r))"
    define s2 where "s2 = snd (Done_first ctx d s1)"
    from "1.prems"(2) have "\<not> fst (Done_first ctx d s1)"
      by (simp add: never_signaled_def)
    then have it: "iteration rt ctx operation attempt result0 evs s =
        Continue v (Some (RESTError_ptr (snd (parseRetryAfter rt r))))
          (evs @ [Invoked (Some (RESTError_ptr r)), Waited d]) s2"
      using iteration_rate_limited [where ctx = ctx and s = s and operation = operation
          and v = v and r = r and ?s1.0 = s1 and rt = rt and attempt = attempt
          and ?result0.0 = result0 and evs = evs] quiet op rl e
      by (simp add: Let_def d_def s2_def)
    have step: "retry_loop rt ctx operation attempt result0 err0 evs s =
        retry_loop rt ctx operation (Suc attempt) v
          (Some (RESTError_ptr (snd (parseRetryAfter rt r))))
          (evs @ [Invoked (Some (RESTError_ptr r)), Waited d]) s2"
      using True it by (subst retry_loop.simps) simp
    have tail: "Suc attempt = 0 \<or>
      (\<exists>r' pre d'. evs @ [Invoked (Some (RESTError_ptr r)), Waited d] =
           pre @ [Invoked (Some (RESTError_ptr r')), Waited d'] \<and>
         rate_limited (RESTError_ptr r') \<and>
         Some (RESTError_ptr (snd (parseRetryAfter rt r))) =
           Some (RESTError_ptr (snd (parseRetryAfter rt r'))))"
      using rl e by blast
    from True have le: "Suc attempt \<le> maxRetries"
      by simp
    from "1.IH" [OF True it "1.prems"(1,2) le tail] True
    show ?thesis
      unfolding step by (simp add: invocations_append)
  qed
qed

text \<open>
  C1. Whatever the operation and the context do, a run invokes the operation at most
  \<open>maxRetries = 5\<close> times. If every invocation fails with a REST error whose response has
  the status code 429 and the context is never signaled, the run invokes the operation
  exactly 5 times, each invocation followed by a wait, and returns the error that says
  that the maximum retry count was exceeded and wraps the error of the last invocation
  (the object that \<^verbatim>\<open>parseRetryAfter\<close> was given).
\<close>

theorem C1_retries_bounded_and_exhausted:
  "maxRetries = 5 \<and>
   invocations (events (executeWithRetry rt ctx zero operation s)) \<le> maxRetries \<and>
   (always_rate_limited operation \<and> never_signaled ctx \<longrightarrow>
      invocations (events (executeWithRetry rt ctx zero operation s)) = maxRetries \<and>
      (\<exists>r pre d.
         events (executeWithRetry rt ctx zero operation s) =
           pre @ [Invoked (Some (RESTError_ptr r)), Waited d] \<and>
         rate_limited (RESTError_ptr r) \<and>
         err (executeWithRetry rt ctx zero operation s) =
           Some (wrapError ''max retries (5) exceeded: ''
             (Some (RESTError_ptr (snd (parseRetryAfter rt r)))))))"
proof (intro conjI impI)
  show "maxRetries = 5"
    by (simp add: maxRetries_def)
next
  show "invocations (events (executeWithRetry rt ctx zero operation s)) \<le> maxRetries"
    using retry_loop_bound [of rt ctx operation 0 zero None "[]" s]
    by (simp add: executeWithRetry_def)
next
  assume "always_rate_limited operation \<and> never_signaled ctx"
  then have a: "always_rate_limited operation" and n: "never_signaled ctx"
    by simp_all
  from retry_loop_exhausts [OF a n, of 0 "[]" None rt zero s]
  show "invocations (events (executeWithRetry rt ctx zero operation s)) = maxRetries"
    and "\<exists>r pre d.
         events (executeWithRetry rt ctx zero operation s) =
           pre @ [Invoked (Some (RESTError_ptr r)), Waited d] \<and>
         rate_limited (RESTError_ptr r) \<and>
         err (executeWithRetry rt ctx zero operation s) =
           Some (wrapError ''max retries (5) exceeded: ''
             (Some (RESTError_ptr (snd (parseRetryAfter rt r)))))"
    by (simp_all add: executeWithRetry_def)
qed

lemma bare_error_rate_limited: "rate_limited (RESTError_ptr bare_error)"
  by (simp add: rate_limited_def bare_error_def response_429_def)

lemma Background_never_signaled: "never_signaled Background"
  by (simp add: never_signaled_def Background_def)

lemma run_always_429:
  "world (executeWithRetry test_runtime Background [] (failing (RESTError_ptr bare_error)) 0) = 5"
  by code_simp

theorem C1_witness:
  "invocations (events (executeWithRetry test_runtime Background []
      (failing (RESTError_ptr bare_error)) 0)) = 5 \<and>
   world (executeWithRetry test_runtime Background [] (failing (RESTError_ptr bare_error)) 0) = 5 \<and>
   (\<exists>r pre d.
      events (executeWithRetry test_runtime Background [] (failing (RESTError_ptr bare_error)) 0) =
        pre @ [Invoked (Some (RESTError_ptr r)), Waited d] \<and>
      rate_limited (RESTError_ptr r) \<and>
      err (executeWithRetry test_runtime Background [] (failing (RESTError_ptr bare_error)) 0) =
        Some (wrapError ''max retries (5) exceeded: ''
          (Some (RESTError_ptr (snd (parseRetryAfter test_runtime r))))))"
proof -
  have "always_rate_limited (failing (RESTError_ptr bare_error))"
    by (simp add: always_rate_limited_def failing_def bare_error_rate_limited)
  with C1_retries_bounded_and_exhausted
    [of test_runtime Background "[]" "failing (RESTError_ptr bare_error)" 0]
    Background_never_signaled run_always_429
  show ?thesis
    by simp
qed

lemma first_attempt: "0 < maxRetries"
  by (simp add: maxRetries_def)

text \<open>
  C6. When the context is not signaled at the call and the operation fails with an
  error that is not a REST error with an attached response of status code 429 (a REST
  error with another status code, a REST error with no response, any other error), the
  run returns that error itself, with the result the operation returned, after exactly
  one invocation and without a wait.
\<close>

theorem C6_other_errors_returned_at_once:
  assumes "Err ctx s = None" and "operation s = ((v, Some e), s1)"
    and "\<not> (\<exists>r resp. e = RESTError_ptr r \<and> Response r = Some resp \<and> StatusCode resp = 429)"
  shows "executeWithRetry rt ctx zero operation s =
           \<lparr>result = v, err = Some e, events = [Invoked (Some e)], world = s1\<rparr> \<and>
         invocations (events (executeWithRetry rt ctx zero operation s)) = 1"
proof -
  from assms(3) have "\<not> rate_limited e"
    by (simp add: rate_limited_cases)
  with assms(1,2) have "iteration rt ctx operation 0 zero [] s =
      Return \<lparr>result = v, err = Some e, events = [] @ [Invoked (Some e)], world = s1\<rparr>"
    by (rule iteration_not_rate_limited)
  then have "executeWithRetry rt ctx zero operation s =
      \<lparr>result = v, err = Some e, events = [Invoked (Some e)], world = s1\<rparr>"
    unfolding executeWithRetry_def using first_attempt by (subst retry_loop.simps) simp
  then show ?thesis
    by simp
qed

theorem C6_witness:
  "executeWithRetry test_runtime Background [] (failing (errorString ''some other error'')) 0 =
     \<lparr>result = [], err = Some (errorString ''some other error''),
      events = [Invoked (Some (errorString ''some other error''))], world = 1\<rparr> \<and>
   executeWithRetry test_runtime Background [] (failing (RESTError_ptr not_found_error)) 0 =
     \<lparr>result = [], err = Some (RESTError_ptr not_found_error),
      events = [Invoked (Some (RESTError_ptr not_found_error))], world = 1\<rparr> \<and>
   executeWithRetry test_runtime Background [] (failing (RESTError_ptr no_response_error)) 0 =
     \<lparr>result = [], err = Some (RESTError_ptr no_response_error),
      events = [Invoked (Some (RESTError_ptr no_response_error))], world = 1\<rparr>"
proof -
  have quiet: "Err Background 0 = None"
    by (simp add: Background_def)
  have fails: "failing e 0 = (([], Some e), 1)" for e
    by (simp add: failing_def)
  have "\<not> (\<exists>r resp. errorString ''some other error'' = RESTError_ptr r \<and>
      Response r = Some resp \<and> StatusCode resp = 429)"
    by simp
  from C6_other_errors_returned_at_once
    [where operation = "failing (errorString ''some other error'')" and ctx = Background and s = 0, OF quiet fails this]
  have a: "executeWithRetry test_runtime Background [] (failing (errorString ''some other error'')) 0 =
     \<lparr>result = [], err = Some (errorString ''some other error''),
      events = [Invoked (Some (errorString ''some other error''))], world = 1\<rparr>"
    by blast
  have "\<not> (\<exists>r resp. RESTError_ptr not_found_error = RESTError_ptr r \<and>
      Response r = Some resp \<and> StatusCode resp = 429)"
    by (simp add: not_found_error_def)
  from C6_other_errors_returned_at_once
    [where operation = "failing (RESTError_ptr not_found_error)" and ctx = Background and s = 0, OF quiet fails this]
  have b: "executeWithRetry test_runtime Background [] (failing (RESTError_ptr not_found_error)) 0 =
     \<lparr>result = [], err = Some (RESTError_ptr not_found_error),
      events = [Invoked (Some (RESTError_ptr not_found_error))], world = 1\<rparr>"
    by blast
  have "\<not> (\<exists>r resp. RESTError_ptr no_response_error = RESTError_ptr r \<and>
      Response r = Some resp \<and> StatusCode resp = 429)"
    by (simp add: no_response_error_def)
  from C6_other_errors_returned_at_once
    [where operation = "failing (RESTError_ptr no_response_error)" and ctx = Background and s = 0, OF quiet fails this]
  have c: "executeWithRetry test_runtime Background [] (failing (RESTError_ptr no_response_error)) 0 =
     \<lparr>result = [], err = Some (RESTError_ptr no_response_error),
      events = [Invoked (Some (RESTError_ptr no_response_error))], world = 1\<rparr>"
    by blast
  from a b c show ?thesis
    by (intro conjI)
qed

text \<open>
  C7. If the context is already signaled when \<^verbatim>\<open>executeWithRetry\<close> is called, the run
  returns the context's error and the zero value of the result type at once: the
  operation is not invoked, nothing is waited for and the world is as it was.
\<close>

theorem C7_signaled_context_returns_at_once:
  assumes "Err ctx s = Some c"
  shows "executeWithRetry rt ctx zero operation s =
           \<lparr>result = zero, err = Some c, events = [], world = s\<rparr> \<and>
         invocations (events (executeWithRetry rt ctx zero operation s)) = 0"
proof -
  have "iteration rt ctx operation 0 zero [] s =
      Return \<lparr>result = zero, err = Some c, events = [], world = s\<rparr>"
    using assms by (rule iteration_cancelled)
  then have "executeWithRetry rt ctx zero operation s =
      \<lparr>result = zero, err = Some c, events = [], world = s\<rparr>"
    unfolding executeWithRetry_def using first_attempt by (subst retry_loop.simps) simp
  then show ?thesis
    by simp
qed

theorem C7_witness:
  "executeWithRetry test_runtime cancelled [] (failing (RESTError_ptr bare_error)) 0 =
     \<lparr>result = [], err = Some Canceled, events = [], world = 0\<rparr> \<and>
   invocations (events (executeWithRetry test_runtime cancelled []
     (failing (RESTError_ptr bare_error)) 0)) = 0"
proof -
  have "Err cancelled 0 = Some Canceled"
    by (simp add: cancelled_def)
  then show ?thesis
    by (rule C7_signaled_context_returns_at_once)
qed

section \<open>executeWithRetryNoResult\<close>

lemma placeholder_iteration:
  "iteration rt ctx (placeholder operation) attempt () evs s =
     (case policy_attempt rt ctx operation attempt evs s of
        Inl (e, evs', s') \<Rightarrow> Return \<lparr>result = (), err = e, events = evs', world = s'\<rparr>
      | Inr (e, evs', s') \<Rightarrow> Continue () e evs' s')"
proof (cases "Err ctx s")
  case (Some c)
  then show ?thesis
    by (simp add: iteration_def policy_attempt_def)
next
  case None
  obtain e s1 where op: "operation s = (e, s1)"
    by (cases "operation s")
  then have pl: "placeholder operation s = (((), e), s1)"
    by (simp add: placeholder_def)
  show ?thesis
  proof (cases e)
    case None
    with \<open>Err ctx s = None\<close> op pl show ?thesis
      by (simp add: iteration_success policy_attempt_def)
  next
    case (Some x)
    show ?thesis
    proof (cases "rate_limited x")
      case False
      with \<open>Err ctx s = None\<close> op pl Some show ?thesis
        by (simp add: iteration_not_rate_limited policy_attempt_def)
    next
      case True
      then obtain r where x: "x = RESTError_ptr r"
        by (auto simp add: rate_limited_cases)
      have "iteration rt ctx (placeholder operation) attempt () evs s =
        (let waitDuration = calculateBackoff (of_nat attempt) (fst (parseRetryAfter rt r));
             s2 = snd (Done_first ctx waitDuration s1)
         in if fst (Done_first ctx waitDuration s1)
            then Return \<lparr>result = (), err = Err ctx s2,
                   events = evs @ [Invoked (Some (RESTError_ptr r)), Interrupted waitDuration],
                   world = s2\<rparr>
            else Continue () (Some (RESTError_ptr (snd (parseRetryAfter rt r))))
                   (evs @ [Invoked (Some (RESTError_ptr r)), Waited waitDuration]) s2)"
        using \<open>Err ctx s = None\<close> pl True Some x
        by (intro iteration_rate_limited) simp_all
      with \<open>Err ctx s = None\<close> op True Some x show ?thesis
        by (simp add: policy_attempt_def Let_def)
    qed
  qed
qed

lemma placeholder_loop:
  "retry_loop rt ctx (placeholder operation) attempt () err0 evs s =
     (case policy_loop rt ctx operation attempt err0 evs s of
        (e, evs', s') \<Rightarrow> \<lparr>result = (), err = e, events = evs', world = s'\<rparr>)"
proof (induction rt ctx operation attempt err0 evs s rule: policy_loop.induct)
  case (1 rt ctx operation attempt last_err evs s)
  show ?case
  proof (cases "attempt < maxRetries")
    case False
    then show ?thesis
      by (subst retry_loop.simps, subst policy_loop.simps) simp
  next
    case True
    show ?thesis
    proof (cases "policy_attempt rt ctx operation attempt evs s")
      case (Inl out)
      with True show ?thesis
        by (subst retry_loop.simps, subst policy_loop.simps)
          (simp add: placeholder_iteration split: prod.splits)
    next
      case (Inr next_state)
      obtain e evs' s' where n: "next_state = (e, evs', s')"
        by (cases next_state)
      from "1.IH" [OF True Inr [unfolded n] refl refl] True Inr n show ?thesis
        by (subst retry_loop.simps, subst policy_loop.simps) (simp add: placeholder_iteration)
    qed
  qed
qed

text \<open>
  C9. \<^verbatim>\<open>executeWithRetryNoResult\<close> returns the error component of \<^verbatim>\<open>executeWithRetry\<close> run
  on the operation wrapped with the placeholder result, with the same events and the
  same final world; and that is the retry policy of the specification run directly on
  the error-only operation: the same cancellation checks, classification, waits and
  retry bound, for every context, operation and world.
\<close>

theorem C9_no_result_variant_follows_policy:
  "executeWithRetryNoResult rt ctx operation s =
     (err (executeWithRetry rt ctx () (placeholder operation) s),
      events (executeWithRetry rt ctx () (placeholder operation) s),
      world (executeWithRetry rt ctx () (placeholder operation) s)) \<and>
   placeholder operation s = (((), fst (operation s)), snd (operation s)) \<and>
   executeWithRetryNoResult rt ctx operation s = retry_policy rt ctx operation s"
proof (intro conjI)
  show "executeWithRetryNoResult rt ctx operation s =
     (err (executeWithRetry rt ctx () (placeholder operation) s),
      events (executeWithRetry rt ctx () (placeholder operation) s),
      world (executeWithRetry rt ctx () (placeholder operation) s))"
    by (simp add: executeWithRetryNoResult_def Let_def)
next
  show "placeholder operation s = (((), fst (operation s)), snd (operation s))"
    by (simp add: placeholder_def split: prod.splits)
next
  show "executeWithRetryNoResult rt ctx operation s = retry_policy rt ctx operation s"
    unfolding executeWithRetryNoResult_def executeWithRetry_def retry_policy_def placeholder_loop
    by (simp add: Let_def split: prod.splits)
qed

lemma run_policy:
  "retry_policy test_runtime Background (failing_only (errorString ''failed'')) 0 =
     (Some (errorString ''failed''), [Invoked (Some (errorString ''failed''))], 1)"
  unfolding retry_policy_def
  by (subst policy_loop.simps)
    (simp add: policy_attempt_def Background_def failing_only_def rate_limited_def maxRetries_def)

theorem C9_witness:
  "executeWithRetryNoResult test_runtime Background (failing_only (errorString ''failed'')) 0 =
     (Some (errorString ''failed''), [Invoked (Some (errorString ''failed''))], 1) \<and>
   err (executeWithRetry test_runtime Background ()
     (placeholder (failing_only (errorString ''failed''))) 0) = Some (errorString ''failed'')"
proof -
  let ?out = "executeWithRetry test_runtime Background ()
     (placeholder (failing_only (errorString ''failed''))) 0"
  from C9_no_result_variant_follows_policy
    [of test_runtime Background "failing_only (errorString ''failed'')" 0]
  have a: "executeWithRetryNoResult test_runtime Background
        (failing_only (errorString ''failed'')) 0 = (err ?out, events ?out, world ?out)"
    and b: "executeWithRetryNoResult test_runtime Background
        (failing_only (errorString ''failed'')) 0 =
      retry_policy test_runtime Background (failing_only (errorString ''failed'')) 0"
    by blast+
  from b have c: "executeWithRetryNoResult test_runtime Background
      (failing_only (errorString ''failed'')) 0 =
    (Some (errorString ''failed''), [Invoked (Some (errorString ''failed''))], 1)"
    by (simp only: run_policy)
  with a have "err ?out = Some (errorString ''failed'')"
    by simp
  with c show ?thesis
    by (intro conjI)
qed

end
